theory Spec2Isabelle
  imports Main "HOL-Library.Word"
begin

section \<open>The sidebar cache of Tree Style Tab\<close>

text \<open>
  A shallow embedding of \<^verbatim>\<open>src/webextensions/sidebar/sidebar-cache.js\<close> and of the
  signature functions of \<^verbatim>\<open>src/webextensions/background/index.js\<close>.

  The module keeps its state in module-level variables and in the browser's session
  store; both are fields of the record \<open>state\<close>, which every function takes and returns.
  What the module only reads from its collaborators (the configuration, the tab registry
  \<^verbatim>\<open>Tabs\<close>, the DOM, the browser's tab list) is the record \<open>env\<close>.
  A JavaScript exception is a value: functions that can throw return
  \<open>(error + 'a) \<times> state\<close>, the state being the one reached when the exception was thrown.
\<close>

subsection \<open>Data\<close>

text \<open>
  The object \<^verbatim>\<open>getTabsSignatureSource\<close> builds for a tab, and a browser tab
  (\<^verbatim>\<open>tabs.Tab\<close>): the same five fields and the tab's \<^verbatim>\<open>id\<close>.
\<close>

record tab_identity =
  audible :: bool
  incognito :: bool
  pinned :: bool
  title :: string
  url :: string

record api_tab = tab_identity +
  tabId :: int

text \<open>A tab element of the registry; \<^verbatim>\<open>tab.apiTab\<close> is the browser tab it stands for.\<close>

record tab =
  apiTab :: api_tab

text \<open>The tabs container of a window, with its \<^verbatim>\<open>allTabsRestored\<close> attribute.\<close>

record container =
  allTabsRestored :: bool

text \<open>The three keys of \<^verbatim>\<open>Constants\<close> under which the module stores values.\<close>

datatype key =
  kWINDOW_STATE_CACHED_SIDEBAR
  | kWINDOW_STATE_CACHED_SIDEBAR_TABS_DIRTY
  | kWINDOW_STATE_CACHED_SIDEBAR_COLLAPSED_DIRTY

text \<open>
  The snapshot object. \<^verbatim>\<open>updateCachedTabbar\<close> writes \<^verbatim>\<open>version\<close>, \<^verbatim>\<open>tabbar\<close>
  (\<^verbatim>\<open>contents\<close>, \<^verbatim>\<open>style\<close>, \<^verbatim>\<open>pinnedTabsCount\<close>), \<^verbatim>\<open>indent\<close> and \<^verbatim>\<open>signature\<close>;
  \<^verbatim>\<open>getEffectiveWindowCache\<close> reads a property \<^verbatim>\<open>tabs\<close> and adds \<^verbatim>\<open>tabsDirty\<close>,
  \<^verbatim>\<open>collapsedDirty\<close>, \<^verbatim>\<open>offset\<close> and \<^verbatim>\<open>actualSignature\<close> to the object it returns.
  A property that an object may lack is an option, \<open>None\<close> where it is absent.
  The indent information is opaque to this module.
\<close>

record tabbar =
  contents :: string
  style :: "string option"
  pinnedTabsCount :: nat
  tabsDirty :: "bool option"
  collapsedDirty :: "bool option"

record snapshot =
  version :: int
  tabs :: "string option"
  tabbar :: tabbar
  indent :: string
  signature :: "string option"
  offset :: "nat option"
  actualSignature :: "string option"

text \<open>A value of the session store: a snapshot, or the \<^verbatim>\<open>true\<close> of a dirty flag.\<close>

datatype stored = Snapshot snapshot | Flag bool

datatype error = TypeError | Rejected string

record state =
  mTracking :: bool
  mLastWindowCacheOwner :: "api_tab option"
  waiting :: bool
  markTimeout :: "key option"
  sessions :: "int \<times> key \<Rightarrow> stored option"
  ownerAssignments :: nat

text \<open>
  \<open>waiting\<close> is \<^verbatim>\<open>updateCachedTabbar.waiting\<close>: it holds a timer exactly while a snapshot
  rebuild is scheduled (the code sets it with \<^verbatim>\<open>setTimeout\<close>, and deletes it when the timer
  fires or is cleared). \<open>markTimeout\<close> is \<^verbatim>\<open>markWindowCacheDirty.timeout\<close>, with the key its
  callback will write. \<open>sessions\<close> is \<^verbatim>\<open>browser.sessions\<close>: the value stored for a tab id
  under a key. \<open>ownerAssignments\<close> is not a variable of the program: it counts the
  assignments to \<^verbatim>\<open>mLastWindowCacheOwner\<close> that were executed, and nothing reads it.
\<close>

record env =
  useCachedTree :: bool
  kSIDEBAR_CONTENTS_VERSION :: int
  hasCreatingTab :: bool
  getTabsContainer :: "container option"
  getLastTab :: "tab option"
  getTabById :: "api_tab \<Rightarrow> tab option"
  queryTabs :: "api_tab list"
  getWindowSignature :: string
  innerHTML :: string
  tabBarStyle :: "string option"
  pinnedTabs :: nat
  indentInfo :: string

text \<open>
  \<open>useCachedTree\<close> is \<^verbatim>\<open>configs.useCachedTree\<close>; \<open>kSIDEBAR_CONTENTS_VERSION\<close> the constant of
  \<^verbatim>\<open>Constants\<close>; \<open>hasCreatingTab\<close>, \<open>getTabsContainer\<close> (of the target window), \<open>getLastTab\<close>
  and \<open>getTabById\<close> the functions of \<^verbatim>\<open>Tabs\<close>; \<open>queryTabs\<close> the answer of
  \<^verbatim>\<open>browser.tabs.query({ currentWindow: true })\<close>; \<open>getWindowSignature\<close> the
  string \<^verbatim>\<open>Cache.getWindowSignature(mTargetWindow)\<close> resolves to; \<open>innerHTML\<close> is
  \<^verbatim>\<open>Tabs.allTabsContainer.innerHTML\<close>, \<open>tabBarStyle\<close> is \<^verbatim>\<open>mTabBar.getAttribute('style')\<close>,
  \<open>pinnedTabs\<close> is \<^verbatim>\<open>Tabs.getPinnedTabs(container).length\<close> and \<open>indentInfo\<close> is
  \<^verbatim>\<open>Indent.getCacheInfo()\<close>.
\<close>

subsection \<open>The store adapter\<close>


text \<open>
  \<^verbatim>\<open>updateWindowCache(key, value)\<close>: returns at once when there is no owner or the registry
  does not know the owner; removes the key when \<^verbatim>\<open>value\<close> is \<^verbatim>\<open>undefined\<close> (\<open>None\<close>), and
  sets it otherwise. The promise of the browser call is not awaited by any caller.
\<close>

definition updateWindowCache :: "env \<Rightarrow> key \<Rightarrow> stored option \<Rightarrow> state \<Rightarrow> state" where
  "updateWindowCache e k v s =
     (case mLastWindowCacheOwner s of
        None \<Rightarrow> s
      | Some owner \<Rightarrow>
          (case getTabById e owner of
             None \<Rightarrow> s
           | Some t \<Rightarrow>
               (case v of
                  None \<Rightarrow> s\<lparr>sessions := (sessions s)((tabId owner, k) := None)\<rparr>
                | Some x \<Rightarrow> s\<lparr>sessions := (sessions s)((tabId owner, k) := Some x)\<rparr>)))"

definition clearWindowCache :: "env \<Rightarrow> state \<Rightarrow> state" where
  "clearWindowCache e s =
     updateWindowCache e kWINDOW_STATE_CACHED_SIDEBAR_COLLAPSED_DIRTY None
       (updateWindowCache e kWINDOW_STATE_CACHED_SIDEBAR_TABS_DIRTY None
         (updateWindowCache e kWINDOW_STATE_CACHED_SIDEBAR None s))"

text \<open>\<^verbatim>\<open>getWindowCache(key)\<close>: \<^verbatim>\<open>null\<close> without an owner, else the value stored for the owner's id.\<close>

definition getWindowCache :: "key \<Rightarrow> state \<Rightarrow> stored option" where
  "getWindowCache k s =
     (case mLastWindowCacheOwner s of
        None \<Rightarrow> None
      | Some owner \<Rightarrow> sessions s (tabId owner, k))"

text \<open>\<^verbatim>\<open>getWindowCacheOwner()\<close>: \<^verbatim>\<open>tab && tab.apiTab\<close> for the last tab of the registry.\<close>

definition getWindowCacheOwner :: "env \<Rightarrow> api_tab option" where
  "getWindowCacheOwner e = (case getLastTab e of None \<Rightarrow> None | Some t \<Rightarrow> Some (apiTab t))"


subsection \<open>The two debounce timers\<close>



definition cancelReservedUpdateCachedTabbar :: "state \<Rightarrow> state" where
  "cancelReservedUpdateCachedTabbar s = (if waiting s then s\<lparr>waiting := False\<rparr> else s)"

text \<open>
  \<^verbatim>\<open>updateCachedTabbar()\<close>. Up to its await for the window's signature (line 270) it
  only tests the configuration and looks the container up; the await for the tabs being
  created, when \<^verbatim>\<open>Tabs.hasCreatingTab()\<close> holds, is taken to resolve.
  \<open>updateCachedTabbarResume\<close> is the rest, lines 271 to 284, which runs in a later turn of
  the event loop: \<^verbatim>\<open>container.allTabsRestored\<close> is read without a check of
  \<^verbatim>\<open>container\<close> (a TypeError when \<^verbatim>\<open>Tabs.getTabsContainer\<close> gave \<^verbatim>\<open>null\<close>), the
  owner is assigned and the snapshot is written. \<open>updateCachedTabbar\<close> is the whole run,
  with nothing happening at the await. The awaits do not touch the module's state, and the
  environment is the one read after them.
\<close>

definition updateCachedTabbarResume :: "env \<Rightarrow> state \<Rightarrow> (error + unit) \<times> state" where
  "updateCachedTabbarResume e s =
     (case getTabsContainer e of
        None \<Rightarrow> (Inl TypeError, s)
      | Some c \<Rightarrow>
          if allTabsRestored c then (Inr (), s)
          else
            (Inr (),
             updateWindowCache e kWINDOW_STATE_CACHED_SIDEBAR
               (Some (Snapshot
                  \<lparr>version = kSIDEBAR_CONTENTS_VERSION e,
                   tabs = None,
                   tabbar = \<lparr>contents = innerHTML e, style = tabBarStyle e,
                             pinnedTabsCount = pinnedTabs e,
                             tabsDirty = None, collapsedDirty = None\<rparr>,
                   indent = indentInfo e,
                   signature = Some (getWindowSignature e),
                   offset = None,
                   actualSignature = None\<rparr>))
               (s\<lparr>mLastWindowCacheOwner := getWindowCacheOwner e,
                  ownerAssignments := Suc (ownerAssignments s)\<rparr>)))"


text \<open>
  \<^verbatim>\<open>reserveToUpdateCachedTabbar()\<close>: nothing unless tracking is on and the configuration
  enables the cache; then, unless the container says that all tabs are restored, the stored
  cache is cleared and the rebuild timer is (re)started. As in \<^verbatim>\<open>updateCachedTabbar\<close>,
  the await for the tabs being created is taken to resolve, and the container is not
  checked before its attribute is read.
\<close>

definition reserveToUpdateCachedTabbar :: "env \<Rightarrow> state \<Rightarrow> (error + unit) \<times> state" where
  "reserveToUpdateCachedTabbar e s =
     (if \<not> mTracking s \<or> \<not> useCachedTree e then (Inr (), s)
      else
        (case getTabsContainer e of
           None \<Rightarrow> (Inl TypeError, s)
         | Some c \<Rightarrow>
             if allTabsRestored c then (Inr (), s)
             else (Inr (), (clearWindowCache e s)\<lparr>waiting := True\<rparr>)))"

subsection \<open>JavaScript strings\<close>

text \<open>
  The string methods used by the offset computation. \<^verbatim>\<open>s.replace(pat, '')\<close> with a string
  pattern removes the first occurrence of the pattern (the empty pattern occurs at the
  start, and removing it changes nothing); \<^verbatim>\<open>trim()\<close> strips white space and line
  terminators at both ends; \<^verbatim>\<open>split('\n')\<close> cuts at every line feed, and yields one empty
  part for the empty string.
\<close>

fun js_replace :: "string \<Rightarrow> string \<Rightarrow> string" where
  "js_replace pat [] = []"
| "js_replace pat (c # cs) =
     (if take (length pat) (c # cs) = pat then drop (length pat) (c # cs)
      else c # js_replace pat cs)"

definition isWhiteSpace :: "char \<Rightarrow> bool" where
  "isWhiteSpace c =
     (c = CHR 0x09 \<or> c = CHR 0x0A \<or> c = CHR 0x0B \<or> c = CHR 0x0C \<or> c = CHR 0x0D \<or>
      c = CHR 0x20 \<or> c = CHR 0xA0)"

definition js_trim :: "string \<Rightarrow> string" where
  "js_trim s = rev (dropWhile isWhiteSpace (rev (dropWhile isWhiteSpace s)))"

fun js_split :: "char \<Rightarrow> string \<Rightarrow> string list" where
  "js_split sep [] = [[]]"
| "js_split sep (c # cs) =
     (if c = sep then [] # js_split sep cs
      else (case js_split sep cs of [] \<Rightarrow> [[c]] | p # ps \<Rightarrow> (c # p) # ps))"

text \<open>\<^verbatim>\<open>parts.join(sep)\<close>.\<close>

fun js_join :: "string \<Rightarrow> string list \<Rightarrow> string" where
  "js_join sep [] = []"
| "js_join sep [p] = p"
| "js_join sep (p # q # ps) = p @ sep @ js_join sep (q # ps)"

text \<open>The truth value JavaScript gives a string that may be absent.\<close>

definition truthy :: "string option \<Rightarrow> bool" where
  "truthy v = (case v of None \<Rightarrow> False | Some s \<Rightarrow> s \<noteq> [])"

subsection \<open>The snapshot validator\<close>

text \<open>
  The functions of \<^verbatim>\<open>common/cache.js\<close> that \<^verbatim>\<open>getEffectiveWindowCache\<close> calls are not
  part of the sources at hand; they are parameters of the model.
  \<open>matcheSignatures C actual cached\<close> is \<^verbatim>\<open>Cache.matcheSignatures({ actual, cached })\<close>.
\<close>

record cache_module =
  signatureFromTabsCache :: "string \<Rightarrow> string"
  trimTabsCache :: "string \<Rightarrow> nat \<Rightarrow> string"
  trimSignature :: "string \<Rightarrow> nat \<Rightarrow> string"
  matcheSignatures :: "string \<Rightarrow> string option \<Rightarrow> bool"

record options =
  ignorePinnedTabs :: bool

text \<open>
  What \<^verbatim>\<open>getTabValue\<close> resolved to, read as the code reads it: the snapshot under the
  cache key (any other value fails the version test exactly as no value does), and the
  flag under a dirty key.
\<close>

definition asSnapshot :: "stored option \<Rightarrow> snapshot option" where
  "asSnapshot v = (case v of Some (Snapshot c) \<Rightarrow> Some c | _ \<Rightarrow> None)"

definition asFlag :: "stored option \<Rightarrow> bool option" where
  "asFlag v = (case v of None \<Rightarrow> None | Some (Flag b) \<Rightarrow> Some b | Some (Snapshot c) \<Rightarrow> Some True)"

text \<open>
  \<^verbatim>\<open>getEffectiveWindowCache\<close> runs in four turns of the event loop, separated by its awaits.
  The first turn, up to the call of \<^verbatim>\<open>browser.tabs.query\<close>, cancels the scheduled rebuild.
\<close>

definition gewcStart :: "state \<Rightarrow> state" where
  "gewcStart s = cancelReservedUpdateCachedTabbar s"

text \<open>
  The second turn: the owner becomes the last of the queried tabs (\<^verbatim>\<open>undefined\<close> when there
  is none) and the three values are requested from the store.
\<close>

definition gewcFetch ::
  "env \<Rightarrow> state \<Rightarrow> (stored option \<times> stored option \<times> stored option) \<times> state" where
  "gewcFetch e s =
     (let s1 = s\<lparr>mLastWindowCacheOwner :=
                  (if queryTabs e = [] then None else Some (last (queryTabs e))),
                ownerAssignments := Suc (ownerAssignments s)\<rparr>
      in ((getWindowCache kWINDOW_STATE_CACHED_SIDEBAR s1,
           getWindowCache kWINDOW_STATE_CACHED_SIDEBAR_TABS_DIRTY s1,
           getWindowCache kWINDOW_STATE_CACHED_SIDEBAR_COLLAPSED_DIRTY s1), s1))"

text \<open>
  The third turn, lines 65 to 102: the log line reads \<^verbatim>\<open>mLastWindowCacheOwner.id\<close> (a
  TypeError without an owner); the test for a broken cache; the trimming of pinned tabs;
  the version test. It yields \<^verbatim>\<open>cache\<close> and \<^verbatim>\<open>cachedSignature\<close>.
\<close>

definition gewcVerify ::
  "cache_module \<Rightarrow> options \<Rightarrow> env \<Rightarrow> stored option \<times> stored option \<times> stored option \<Rightarrow>
   state \<Rightarrow> (error + snapshot option \<times> string option) \<times> state" where
  "gewcVerify C opts e fetched s =
     (case fetched of (v, tabsDirtyV, collapsedDirtyV) \<Rightarrow>
      let cache = asSnapshot v;
          cachedSignature = (case cache of None \<Rightarrow> None | Some c \<Rightarrow> signature c)
      in
        (case mLastWindowCacheOwner s of
           None \<Rightarrow> (Inl TypeError, s)
         | Some owner \<Rightarrow>
             let broken =
                   (case cache of
                      None \<Rightarrow> False
                    | Some c \<Rightarrow>
                        truthy (tabs c) \<and> truthy cachedSignature \<and>
                        cachedSignature \<noteq> Some (signatureFromTabsCache C (contents (tabbar c))));
                 cache1 = (if broken then None else cache);
                 cachedSignature1 = (if broken then None else cachedSignature);
                 s1 = (if broken then clearWindowCache e s else s);
                 trimmed =
                   (case (cache1, cachedSignature1) of
                      (Some c, Some sg) \<Rightarrow>
                        if ignorePinnedTabs opts \<and> contents (tabbar c) \<noteq> [] \<and> sg \<noteq> []
                        then (Some (c\<lparr>tabbar := (tabbar c)\<lparr>contents :=
                                 trimTabsCache C (contents (tabbar c)) (pinnedTabsCount (tabbar c))\<rparr>\<rparr>),
                              Some (trimSignature C sg (pinnedTabsCount (tabbar c))))
                        else (cache1, cachedSignature1)
                    | _ \<Rightarrow> (cache1, cachedSignature1));
                 cache2 = fst trimmed;
                 cachedSignature2 = snd trimmed;
                 cache3 =
                   (case cache2 of
                      None \<Rightarrow> None
                    | Some c \<Rightarrow>
                        if version c = kSIDEBAR_CONTENTS_VERSION e
                        then Some (c\<lparr>tabbar := (tabbar c)\<lparr>tabsDirty := asFlag tabsDirtyV,
                                                         collapsedDirty := asFlag collapsedDirtyV\<rparr>,
                                      signature := cachedSignature2\<rparr>)
                        else None)
             in (Inr (cache3, cachedSignature2), s1)))"

text \<open>
  \<^verbatim>\<open>actualSignature.replace(cachedSignature, '').trim().split('\n').filter(part => !!part).length\<close>;
  a \<^verbatim>\<open>cachedSignature\<close> that is \<^verbatim>\<open>undefined\<close> (the snapshot has no \<^verbatim>\<open>signature\<close>) is
  searched for as the string it converts to. A snapshot stored with the signature
  \<^verbatim>\<open>null\<close> is not told apart from one without a signature; for it the code searches for the
  text \<^verbatim>\<open>null\<close> instead.
\<close>

definition offsetOf :: "string \<Rightarrow> string option \<Rightarrow> nat" where
  "offsetOf actual cached =
     length (filter (\<lambda>part. part \<noteq> [])
       (js_split (CHR 0x0A)
         (js_trim (js_replace (case cached of None \<Rightarrow> ''undefined'' | Some sg \<Rightarrow> sg) actual))))"

text \<open>The last turn, lines 109 to 130, once both branches of \<^verbatim>\<open>Promise.all\<close> are done.\<close>

definition gewcFinish ::
  "cache_module \<Rightarrow> env \<Rightarrow> snapshot option \<times> string option \<Rightarrow> state \<Rightarrow> snapshot option \<times> state" where
  "gewcFinish C e verified s =
     (case verified of (cache, cachedSignature) \<Rightarrow>
      let actual = getWindowSignature e;
          signatureMatched = matcheSignatures C actual cachedSignature
      in
        (case cache of
           None \<Rightarrow> (None, clearWindowCache e s)
         | Some c \<Rightarrow>
             if \<not> signatureMatched then (None, clearWindowCache e s)
             else (Some (c\<lparr>offset := Some (offsetOf actual cachedSignature),
                           actualSignature := Some actual\<rparr>), s)))"

definition getEffectiveWindowCache ::
  "cache_module \<Rightarrow> options \<Rightarrow> env \<Rightarrow> state \<Rightarrow> (error + snapshot option) \<times> state" where
  "getEffectiveWindowCache C opts e s =
     (case gewcFetch e (gewcStart s) of (fetched, s1) \<Rightarrow>
        (case gewcVerify C opts e fetched s1 of
           (Inl err, s2) \<Rightarrow> (Inl err, s2)
         | (Inr verified, s2) \<Rightarrow>
             (case gewcFinish C e verified s2 of (cache, s3) \<Rightarrow> (Inr cache, s3))))"

subsection \<open>The restoration applier\<close>

text \<open>
  One entry of a tree structure: the position of the tab's parent (\<open>-1\<close> for a root) and
  whether its subtree is collapsed.
\<close>

record structure_item =
  parent :: int
  collapsed :: bool

text \<open>
  The part of the document \<^verbatim>\<open>restoreTabsFromCache\<close> works on: the tabs container of the
  target window while one is attached (what \<^verbatim>\<open>Tabs.getTabsContainer(mTargetWindow)\<close>
  finds), the \<^verbatim>\<open>style\<close> attribute of the tab bar, the calls of
  \<^verbatim>\<open>Tree.collapseExpandSubtree\<close> made so far (tab and \<^verbatim>\<open>collapsed\<close>), and how often
  \<^verbatim>\<open>onRestored\<close> was dispatched.
\<close>

record sidebar_dom =
  attachedContainer :: "container option"
  tabBarStyleAttr :: "string option"
  collapseCalls :: "(tab \<times> bool) list"
  restoredDispatched :: nat

record restore_params =
  paramsOffset :: "nat option"
  paramsTabs :: "api_tab list"

record internal_args =
  argTabs :: "api_tab list"
  argOffset :: nat
  argCache :: string
  argShouldUpdate :: "bool option"

text \<open>
  The collaborators of the applier, none of them in the sources at hand:
  \<^verbatim>\<open>Cache.restoreTabsFromCacheInternal\<close>, which changes the document and says whether it
  restored the tabs; the answer to the message \<^verbatim>\<open>kCOMMAND_PULL_TREE_STRUCTURE\<close> (its
  \<^verbatim>\<open>structure\<close>, or the error the promise is rejected with); \<^verbatim>\<open>Tabs.getAllTabs\<close>;
  \<^verbatim>\<open>Tree.getTreeStructureFromTabs\<close>.
\<close>

record restore_env =
  restoreTabsFromCacheInternal :: "internal_args \<Rightarrow> sidebar_dom \<Rightarrow> bool \<times> sidebar_dom"
  pullTreeStructure :: "error + structure_item list"
  getAllTabs :: "sidebar_dom \<Rightarrow> tab list"
  getTreeStructureFromTabs :: "tab list \<Rightarrow> structure_item list"

text \<open>
  The string of an integer, as \<^verbatim>\<open>join\<close> prints the positions: decimal digits, with a
  minus sign for a negative number. (JavaScript prints numbers in this form below
  \<open>10\<^sup>2\<^sup>1\<close> and with an exponent from there on; positions of tabs are far smaller.)
\<close>

definition digitChar :: "nat \<Rightarrow> char" where
  "digitChar d = char_of (48 + d)"

fun natToString :: "nat \<Rightarrow> string" where
  "natToString n =
     (if n < 10 then [digitChar n] else natToString (n div 10) @ [digitChar (n mod 10)])"

definition numberToString :: "int \<Rightarrow> string" where
  "numberToString i =
     (if i < 0 then CHR ''-'' # natToString (nat (- i)) else natToString (nat i))"

text \<open>\<^verbatim>\<open>structure.map(item => item.parent).join(',')\<close>.\<close>

definition parentsJoined :: "structure_item list \<Rightarrow> string" where
  "parentsJoined structure = js_join '','' (map (\<lambda>item. numberToString (parent item)) structure)"

text \<open>
  The loop over the reversed tabs: \<^verbatim>\<open>structure[index].collapsed\<close> is a TypeError when the
  structure has no entry at the index; the calls made before it stay made.
\<close>

fun collapseExpandAll ::
  "tab list \<Rightarrow> structure_item list \<Rightarrow> sidebar_dom \<Rightarrow> (error + unit) \<times> sidebar_dom" where
  "collapseExpandAll [] structure d = (Inr (), d)"
| "collapseExpandAll (t # ts) [] d = (Inl TypeError, d)"
| "collapseExpandAll (t # ts) (item # items) d =
     collapseExpandAll ts items (d\<lparr>collapseCalls := collapseCalls d @ [(t, collapsed item)]\<rparr>)"

text \<open>
  \<^verbatim>\<open>restoreTabsFromCache(cache, params)\<close>; \<^verbatim>\<open>cache\<close> is the \<^verbatim>\<open>tabbar\<close> of an effective
  cache. Its first lines: \<^verbatim>\<open>params.offset || 0\<close>; for an offset of zero the container is
  removed and the cached style is set (\<^verbatim>\<open>setAttribute('style', null)\<close> sets the attribute
  to the string \<^verbatim>\<open>null\<close>); then the arguments of \<^verbatim>\<open>Cache.restoreTabsFromCacheInternal\<close>.
\<close>

definition restoreOffset :: "restore_params \<Rightarrow> nat" where
  "restoreOffset params = (case paramsOffset params of None \<Rightarrow> 0 | Some n \<Rightarrow> n)"

definition prepareTabBar :: "tabbar \<Rightarrow> nat \<Rightarrow> sidebar_dom \<Rightarrow> sidebar_dom" where
  "prepareTabBar cache offs d =
     (if offs \<le> 0
      then d\<lparr>attachedContainer := None,
             tabBarStyleAttr := Some (case style cache of None \<Rightarrow> ''null'' | Some st \<Rightarrow> st)\<rparr>
      else d)"

definition internalArgs :: "tabbar \<Rightarrow> restore_params \<Rightarrow> internal_args" where
  "internalArgs cache params =
     \<lparr>argTabs = paramsTabs params, argOffset = restoreOffset params,
      argCache = contents cache, argShouldUpdate = tabsDirty cache\<rparr>"

text \<open>
  The rest of the function. An exception in the \<^verbatim>\<open>try\<close> block is logged and thrown
  again; \<^verbatim>\<open>onRestored\<close> is dispatched whenever the block ends without one.
\<close>

definition restoreTabsFromCache ::
  "restore_env \<Rightarrow> tabbar \<Rightarrow> restore_params \<Rightarrow> sidebar_dom \<Rightarrow> (error + bool) \<times> sidebar_dom" where
  "restoreTabsFromCache R cache params d =
     (case restoreTabsFromCacheInternal R (internalArgs cache params)
             (prepareTabBar cache (restoreOffset params) d) of
        (restored, d2) \<Rightarrow>
          if \<not> restored then (Inr False, d2)
          else
            (case pullTreeStructure R of
               Inl err \<Rightarrow> (Inl err, d2)
             | Inr masterStructure \<Rightarrow>
                 let allTabs = getAllTabs R d2;
                     currentStructure = getTreeStructureFromTabs R allTabs
                 in
                   if parentsJoined currentStructure \<noteq> parentsJoined masterStructure
                   then (Inr False,
                         d2\<lparr>attachedContainer := None,
                            restoredDispatched := Suc (restoredDispatched d2)\<rparr>)
                   else if collapsedDirty cache = Some True
                   then
                     (case collapseExpandAll (rev allTabs) (rev currentStructure) d2 of
                        (Inl err, d3) \<Rightarrow> (Inl err, d3)
                      | (Inr u, d3) \<Rightarrow>
                          (Inr True, d3\<lparr>restoredDispatched := Suc (restoredDispatched d3)\<rparr>))
                   else (Inr True, d2\<lparr>restoredDispatched := Suc (restoredDispatched d2)\<rparr>)))"

declare natToString.simps [simp del]

subsection \<open>The signature of the background page\<close>












subsection \<open>The event loop during a validation pass\<close>

text \<open>
  While \<^verbatim>\<open>getEffectiveWindowCache\<close> is suspended at an await, the event loop runs
  whatever else is due. Of the module's own code that is: a listener of lines 312 to 377
  calling \<^verbatim>\<open>reserveToUpdateCachedTabbar()\<close>; the callback of the rebuild timer, if the
  timer is pending, which deletes \<^verbatim>\<open>updateCachedTabbar.waiting\<close> and starts
  \<^verbatim>\<open>updateCachedTabbar()\<close>, a run that is suspended at its own await unless the
  configuration disables the cache; and the rest of such a suspended run. Besides the
  module's state the loop therefore holds the number of suspended runs of
  \<^verbatim>\<open>updateCachedTabbar\<close>.
\<close>

record event_loop =
  moduleState :: state
  suspendedRebuilds :: nat

datatype event = ListenerReserves | TimerExpires | RebuildResumes

fun runEvent :: "env \<Rightarrow> event_loop \<Rightarrow> event \<Rightarrow> event_loop" where
  "runEvent e L ListenerReserves =
     L\<lparr>moduleState := snd (reserveToUpdateCachedTabbar e (moduleState L))\<rparr>"
| "runEvent e L TimerExpires =
     (if waiting (moduleState L)
      then
        (if useCachedTree e
         then L\<lparr>moduleState := (moduleState L)\<lparr>waiting := False\<rparr>,
                suspendedRebuilds := Suc (suspendedRebuilds L)\<rparr>
         else L\<lparr>moduleState := (moduleState L)\<lparr>waiting := False\<rparr>\<rparr>)
      else L)"
| "runEvent e L RebuildResumes =
     (if suspendedRebuilds L = 0 then L
      else L\<lparr>moduleState := snd (updateCachedTabbarResume e (moduleState L)),
             suspendedRebuilds := suspendedRebuilds L - 1\<rparr>)"

definition runEvents :: "env \<Rightarrow> event list \<Rightarrow> event_loop \<Rightarrow> event_loop" where
  "runEvents e evs L = foldl (runEvent e) L evs"

text \<open>
  The pass with the events \<open>evs1\<close> at its first await (before the stored values are
  requested), \<open>evs2\<close> at its second (between the request and the checks of lines 65 to
  102) and \<open>evs3\<close> at its third (before the comparison of line 109).
\<close>

definition getEffectiveWindowCacheWithEvents ::
  "cache_module \<Rightarrow> options \<Rightarrow> env \<Rightarrow> event list \<times> event list \<times> event list \<Rightarrow>
   event_loop \<Rightarrow> (error + snapshot option) \<times> event_loop" where
  "getEffectiveWindowCacheWithEvents C opts e evs L =
     (case evs of (evs1, evs2, evs3) \<Rightarrow>
        let L0 = runEvents e evs1 (L\<lparr>moduleState := gewcStart (moduleState L)\<rparr>)
        in
          (case gewcFetch e (moduleState L0) of (fetched, s1) \<Rightarrow>
             let L1 = runEvents e evs2 (L0\<lparr>moduleState := s1\<rparr>)
             in
               (case gewcVerify C opts e fetched (moduleState L1) of
                  (Inl err, s2) \<Rightarrow> (Inl err, L1\<lparr>moduleState := s2\<rparr>)
                | (Inr verified, s2) \<Rightarrow>
                    let L2 = runEvents e evs3 (L1\<lparr>moduleState := s2\<rparr>)
                    in
                      (case gewcFinish C e verified (moduleState L2) of
                         (cache, s3) \<Rightarrow> (Inr cache, L2\<lparr>moduleState := s3\<rparr>)))))"

subsection \<open>Signatures of one record per line\<close>

text \<open>
  Modelled from the spec: \<^verbatim>\<open>computeSignature\<close>, the signature of a sequence of per-tab
  records (\<^verbatim>\<open>Cache.getWindowSignature\<close> of \<^verbatim>\<open>common/cache.js\<close> is not in the sources at
  hand). The spec fixes "a line-per-tab serialization" with "one discrete signature-record
  per delimiter unit": the records joined by line feeds.
\<close>

definition computeSignature :: "string list \<Rightarrow> string" where
  "computeSignature records = js_join [CHR 0x0A] records"

text \<open>
  A record that can stand on a line of its own: it has no line feed in it and is not
  blank.
\<close>

definition signatureRecord :: "string \<Rightarrow> bool" where
  "signatureRecord r = (CHR 0x0A \<notin> set r \<and> \<not> list_all isWhiteSpace r)"

text \<open>
  Modelled from the spec: \<^verbatim>\<open>matchSignatures\<close> (\<^verbatim>\<open>Cache.matcheSignatures\<close> is not in the
  sources at hand), "true if cached is empty/absent-compatible or is an exact-or-prefix
  match of actual; false otherwise", where the "prefix match must tolerate trailing
  whitespace".
\<close>

definition matchSignatures :: "string \<Rightarrow> string option \<Rightarrow> bool" where
  "matchSignatures actual cached =
     (case cached of
        None \<Rightarrow> True
      | Some sg \<Rightarrow>
          take (length sg) actual = sg \<or> take (length (js_trim sg)) actual = js_trim sg)"

text \<open>
  An instance of the interface of \<^verbatim>\<open>common/cache.js\<close> for the evaluations below. Its
  markup is the bare records, one per line, so the signature of a markup is the markup
  itself; trimming drops the leading lines.
\<close>

definition dropLines :: "string \<Rightarrow> nat \<Rightarrow> string" where
  "dropLines s n = js_join [CHR 0x0A] (drop n (js_split (CHR 0x0A) s))"

definition plainCache :: cache_module where
  "plainCache =
     \<lparr>signatureFromTabsCache = (\<lambda>markup. markup),
      trimTabsCache = dropLines,
      trimSignature = dropLines,
      matcheSignatures = matchSignatures\<rparr>"

text \<open>A browser tab with the given id and title, for the evaluations below.\<close>

definition plainTab :: "int \<Rightarrow> string \<Rightarrow> api_tab" where
  "plainTab i t =
     \<lparr>audible = False, incognito = False, pinned = False, title = t, url = ''about:blank'',
      tabId = i\<rparr>"

subsection \<open>A window with two tabs, for the evaluations below\<close>

definition exampleSnapshot :: snapshot where
  "exampleSnapshot =
     \<lparr>version = 3, tabs = None,
      tabbar = \<lparr>contents = computeSignature [''a'', ''b''], style = None, pinnedTabsCount = 0,
                tabsDirty = None, collapsedDirty = None\<rparr>,
      indent = [], signature = Some (computeSignature [''a'', ''b'']),
      offset = None, actualSignature = None\<rparr>"

definition exampleEnv :: env where
  "exampleEnv =
     \<lparr>useCachedTree = True, kSIDEBAR_CONTENTS_VERSION = 3, hasCreatingTab = False,
      getTabsContainer = Some \<lparr>allTabsRestored = False\<rparr>,
      getLastTab = Some \<lparr>apiTab = plainTab 2 ''B''\<rparr>,
      getTabById = (\<lambda>t. if tabId t = 1 \<or> tabId t = 2 then Some \<lparr>apiTab = t\<rparr> else None),
      queryTabs = [plainTab 1 ''A'', plainTab 2 ''B''],
      getWindowSignature = computeSignature [''a'', ''b''],
      innerHTML = computeSignature [''a'', ''b''], tabBarStyle = None, pinnedTabs = 0,
      indentInfo = []\<rparr>"

definition exampleState :: state where
  "exampleState =
     \<lparr>mTracking = True, mLastWindowCacheOwner = Some (plainTab 2 ''B''), waiting = True,
      markTimeout = None,
      sessions = (\<lambda>slot. if slot = (2, kWINDOW_STATE_CACHED_SIDEBAR)
                           then Some (Snapshot exampleSnapshot) else None),
      ownerAssignments = 0\<rparr>"

text \<open>
  The example window after a third record has appeared, and the snapshot a rebuild
  writes there; the example window after a tab 5 has been opened at its end.
\<close>

definition grownEnv :: env where
  "grownEnv =
     exampleEnv\<lparr>getWindowSignature := computeSignature [''a'', ''b'', ''c''],
                innerHTML := computeSignature [''a'', ''b'', ''c'']\<rparr>"

definition rebuiltSnapshot :: snapshot where
  "rebuiltSnapshot =
     exampleSnapshot
       \<lparr>tabbar := (tabbar exampleSnapshot)\<lparr>contents := computeSignature [''a'', ''b'', ''c'']\<rparr>,
        signature := Some (computeSignature [''a'', ''b'', ''c''])\<rparr>"


definition exampleRestoreEnv :: restore_env where
  "exampleRestoreEnv =
     \<lparr>restoreTabsFromCacheInternal =
        (\<lambda>args d. (True, d\<lparr>attachedContainer := Some \<lparr>allTabsRestored = True\<rparr>\<rparr>)),
      pullTreeStructure = Inr [\<lparr>parent = - 1, collapsed = False\<rparr>, \<lparr>parent = 0, collapsed = False\<rparr>],
      getAllTabs = (\<lambda>d. [\<lparr>apiTab = plainTab 1 ''A''\<rparr>, \<lparr>apiTab = plainTab 2 ''B''\<rparr>]),
      getTreeStructureFromTabs = map (\<lambda>t. \<lparr>parent = - 1, collapsed = False\<rparr>)\<rparr>"

definition exampleDom :: sidebar_dom where
  "exampleDom =
     \<lparr>attachedContainer = Some \<lparr>allTabsRestored = False\<rparr>, tabBarStyleAttr = None,
      collapseCalls = [], restoredDispatched = 0\<rparr>"

subsection \<open>Reading the printed forms back\<close>

text \<open>
  Two decoders, used only to show that printing loses nothing: a decimal numeral read
  back as a number, and the first character of an escaped JSON string body read back
  together with the rest of the text.
\<close>

definition parseNat :: "string \<Rightarrow> nat" where
  "parseNat s = foldl (\<lambda>acc ch. acc * 10 + (of_char ch - 48)) 0 s"



section \<open>Properties\<close>

subsection \<open>The store adapter\<close>

lemma updateWindowCache_owner:
  "mLastWindowCacheOwner (updateWindowCache e k v s) = mLastWindowCacheOwner s"
  by (simp add: updateWindowCache_def split: option.splits)

lemma updateWindowCache_waiting: "waiting (updateWindowCache e k v s) = waiting s"
  by (simp add: updateWindowCache_def split: option.splits)

lemma clearWindowCache_owner:
  "mLastWindowCacheOwner (clearWindowCache e s) = mLastWindowCacheOwner s"
  by (simp add: clearWindowCache_def updateWindowCache_owner)

lemma clearWindowCache_waiting: "waiting (clearWindowCache e s) = waiting s"
  by (simp add: clearWindowCache_def updateWindowCache_waiting)

lemma updateWindowCache_remove_absent:
  "getWindowCache k s = None \<Longrightarrow> updateWindowCache e k None s = s"
  by (auto simp: updateWindowCache_def getWindowCache_def fun_upd_idem split: option.splits)

lemma getWindowCache_after_remove:
  "getWindowCache k s = None \<Longrightarrow> getWindowCache k (updateWindowCache e k' None s) = None"
  by (auto simp: updateWindowCache_def getWindowCache_def split: option.splits)

lemma clearWindowCache_unowned:
  "mLastWindowCacheOwner s = None \<or>
     (\<exists>ow. mLastWindowCacheOwner s = Some ow \<and> getTabById e ow = None) \<Longrightarrow>
   clearWindowCache e s = s"
  by (auto simp: clearWindowCache_def updateWindowCache_def)

lemma clearWindowCache_empties:
  "mLastWindowCacheOwner s = Some ow \<Longrightarrow> getTabById e ow = Some t \<Longrightarrow>
   getWindowCache k (clearWindowCache e s) = None"
  by (cases k) (auto simp: clearWindowCache_def updateWindowCache_def getWindowCache_def)

lemma clearWindowCache_nothing_stored:
  assumes "\<forall>k. getWindowCache k s = None"
  shows "clearWindowCache e s = s"
  using assms unfolding clearWindowCache_def
  by (simp add: updateWindowCache_remove_absent)

lemma clearWindowCache_twice:
  "clearWindowCache e (clearWindowCache e s) = clearWindowCache e s"
proof (cases "mLastWindowCacheOwner s = None \<or>
    (\<exists>ow. mLastWindowCacheOwner s = Some ow \<and> getTabById e ow = None)")
  case True
  then show ?thesis by (simp add: clearWindowCache_unowned)
next
  case False
  then obtain ow t where "mLastWindowCacheOwner s = Some ow" "getTabById e ow = Some t"
    by auto
  then have "\<forall>k. getWindowCache k (clearWindowCache e s) = None"
    by (simp add: clearWindowCache_empties)
  then show ?thesis by (rule clearWindowCache_nothing_stored)
qed

text \<open>
  Claim C6. Without an owner, or with an owner the registry no longer knows, a write, a
  delete and a clear leave the state as it is; the functions have no path that throws.
  A clear with nothing stored changes nothing, and a second clear changes nothing more.
\<close>

theorem ownerless_store_operations:
  "((mLastWindowCacheOwner s = None \<or>
      (\<exists>ow. mLastWindowCacheOwner s = Some ow \<and> getTabById e ow = None)) \<longrightarrow>
     updateWindowCache e k v s = s \<and> clearWindowCache e s = s) \<and>
   ((\<forall>k. getWindowCache k s = None) \<longrightarrow> clearWindowCache e s = s) \<and>
   clearWindowCache e (clearWindowCache e s) = clearWindowCache e s"
proof (intro conjI impI)
  assume a: "mLastWindowCacheOwner s = None \<or>
      (\<exists>ow. mLastWindowCacheOwner s = Some ow \<and> getTabById e ow = None)"
  then show "updateWindowCache e k v s = s" by (auto simp: updateWindowCache_def)
  from a show "clearWindowCache e s = s" by (rule clearWindowCache_unowned)
next
  assume "\<forall>k. getWindowCache k s = None"
  then show "clearWindowCache e s = s" by (rule clearWindowCache_nothing_stored)
next
  show "clearWindowCache e (clearWindowCache e s) = clearWindowCache e s"
    by (rule clearWindowCache_twice)
qed

theorem ownerless_store_operations_witness:
  "updateWindowCache exampleEnv kWINDOW_STATE_CACHED_SIDEBAR_TABS_DIRTY (Some (Flag True))
     (exampleState\<lparr>mLastWindowCacheOwner := Some (plainTab 7 ''gone'')\<rparr>) =
     exampleState\<lparr>mLastWindowCacheOwner := Some (plainTab 7 ''gone'')\<rparr> \<and>
   clearWindowCache exampleEnv (exampleState\<lparr>mLastWindowCacheOwner := Some (plainTab 7 ''gone'')\<rparr>) =
     exampleState\<lparr>mLastWindowCacheOwner := Some (plainTab 7 ''gone'')\<rparr> \<and>
   clearWindowCache exampleEnv (exampleState\<lparr>mLastWindowCacheOwner := None\<rparr>) =
     exampleState\<lparr>mLastWindowCacheOwner := None\<rparr> \<and>
   clearWindowCache exampleEnv (clearWindowCache exampleEnv exampleState) =
     clearWindowCache exampleEnv exampleState"
  using
    ownerless_store_operations [of "exampleState\<lparr>mLastWindowCacheOwner := Some (plainTab 7 ''gone'')\<rparr>"
      exampleEnv kWINDOW_STATE_CACHED_SIDEBAR_TABS_DIRTY "Some (Flag True)"]
    ownerless_store_operations [of "exampleState\<lparr>mLastWindowCacheOwner := None\<rparr>" exampleEnv]
    ownerless_store_operations [of exampleState exampleEnv]
  by (simp add: exampleEnv_def plainTab_def)

subsection \<open>Scheduling a rebuild\<close>

text \<open>
  Claim C10. While tracking has not been started, or while the configuration disables the
  cached tree, \<^verbatim>\<open>reserveToUpdateCachedTabbar\<close> returns with the state unchanged: the
  stored values, the owner and both timers are as before.
\<close>

theorem reserve_untracked_noop:
  "\<not> mTracking s \<or> \<not> useCachedTree e \<Longrightarrow> reserveToUpdateCachedTabbar e s = (Inr (), s)"
  by (simp add: reserveToUpdateCachedTabbar_def)

theorem reserve_untracked_noop_witness:
  "reserveToUpdateCachedTabbar exampleEnv (exampleState\<lparr>mTracking := False\<rparr>) =
     (Inr (), exampleState\<lparr>mTracking := False\<rparr>) \<and>
   reserveToUpdateCachedTabbar (exampleEnv\<lparr>useCachedTree := False\<rparr>) exampleState =
     (Inr (), exampleState)"
  using reserve_untracked_noop [of "exampleState\<lparr>mTracking := False\<rparr>" exampleEnv]
    reserve_untracked_noop [of exampleState "exampleEnv\<lparr>useCachedTree := False\<rparr>"]
  by simp

text \<open>
  Claim C8 says that \<^verbatim>\<open>reserveToUpdateCachedTabbar\<close> never throws, also when
  \<^verbatim>\<open>Tabs.getTabsContainer\<close> gives \<^verbatim>\<open>null\<close>. The code reads
  \<^verbatim>\<open>container.allTabsRestored\<close> without the test that \<^verbatim>\<open>restoreTabsFromCache\<close> makes
  (\<^verbatim>\<open>if (container)\<close>): with tracking on, the cache enabled and no container, the call
  ends in a TypeError.
\<close>

theorem reserve_without_container_throws:
  "mTracking s \<Longrightarrow> useCachedTree e \<Longrightarrow> getTabsContainer e = None \<Longrightarrow>
   reserveToUpdateCachedTabbar e s = (Inl TypeError, s)"
  by (simp add: reserveToUpdateCachedTabbar_def)

theorem reserve_without_container_throws_witness:
  "reserveToUpdateCachedTabbar (exampleEnv\<lparr>getTabsContainer := None\<rparr>) exampleState =
     (Inl TypeError, exampleState)"
  using reserve_without_container_throws [of exampleState "exampleEnv\<lparr>getTabsContainer := None\<rparr>"]
  by (simp add: exampleEnv_def exampleState_def)

subsection \<open>The validation pass\<close>

lemma gewcStart_waiting: "\<not> waiting (gewcStart s)"
  by (simp add: gewcStart_def cancelReservedUpdateCachedTabbar_def)

lemma gewcFetch_waiting: "waiting (snd (gewcFetch e s)) = waiting s"
  by (simp add: gewcFetch_def Let_def)

lemma gewcVerify_waiting: "waiting (snd (gewcVerify C opts e f s)) = waiting s"
  by (cases f) (simp add: gewcVerify_def Let_def clearWindowCache_waiting split: option.splits)

lemma gewcFinish_waiting: "waiting (snd (gewcFinish C e v s)) = waiting s"
  by (cases v) (simp add: gewcFinish_def Let_def clearWindowCache_waiting split: option.splits)

lemma expiry_idle: "\<not> waiting (moduleState L) \<Longrightarrow> runEvent e L TimerExpires = L"
  by simp

lemma expiries_idle:
  "\<not> waiting (moduleState L) \<Longrightarrow> \<forall>ev\<in>set evs. ev = TimerExpires \<Longrightarrow> runEvents e evs L = L"
  unfolding runEvents_def by (induction evs) simp_all

lemma expiries_only:
  assumes "\<forall>ev\<in>set (evs1 @ evs2 @ evs3). ev = TimerExpires"
  shows "getEffectiveWindowCacheWithEvents C opts e (evs1, evs2, evs3) L =
     (fst (getEffectiveWindowCache C opts e (moduleState L)),
      L\<lparr>moduleState := snd (getEffectiveWindowCache C opts e (moduleState L))\<rparr>)"
proof -
  from assms have a1: "\<forall>ev\<in>set evs1. ev = TimerExpires"
    and a2: "\<forall>ev\<in>set evs2. ev = TimerExpires"
    and a3: "\<forall>ev\<in>set evs3. ev = TimerExpires" by auto
  let ?s0 = "gewcStart (moduleState L)"
  have w0: "\<not> waiting (moduleState (L\<lparr>moduleState := ?s0\<rparr>))"
    by (simp add: gewcStart_waiting)
  have L0: "runEvents e evs1 (L\<lparr>moduleState := ?s0\<rparr>) = L\<lparr>moduleState := ?s0\<rparr>"
    by (rule expiries_idle [OF w0 a1])
  obtain f s1 where f: "gewcFetch e ?s0 = (f, s1)" by (cases "gewcFetch e ?s0")
  have w1: "\<not> waiting (moduleState (L\<lparr>moduleState := s1\<rparr>))"
    using gewcFetch_waiting [of e ?s0] f gewcStart_waiting [of "moduleState L"] by simp
  have L1: "runEvents e evs2 (L\<lparr>moduleState := s1\<rparr>) = L\<lparr>moduleState := s1\<rparr>"
    by (rule expiries_idle [OF w1 a2])
  obtain r s2 where r: "gewcVerify C opts e f s1 = (r, s2)"
    by (cases "gewcVerify C opts e f s1")
  have w2: "\<not> waiting (moduleState (L\<lparr>moduleState := s2\<rparr>))"
    using gewcVerify_waiting [of C opts e f s1] r w1 by simp
  have L2: "runEvents e evs3 (L\<lparr>moduleState := s2\<rparr>) = L\<lparr>moduleState := s2\<rparr>"
    by (rule expiries_idle [OF w2 a3])
  show ?thesis
    by (simp add: getEffectiveWindowCacheWithEvents_def getEffectiveWindowCache_def Let_def
        L0 f L1 r L2 split: sum.splits prod.splits)
qed

lemma gewc_waiting: "\<not> waiting (snd (getEffectiveWindowCache C opts e s))"
proof -
  have w0: "\<not> waiting (gewcStart s)" by (rule gewcStart_waiting)
  obtain f s1 where f: "gewcFetch e (gewcStart s) = (f, s1)"
    by (cases "gewcFetch e (gewcStart s)")
  have w1: "\<not> waiting s1" using gewcFetch_waiting [of e "gewcStart s"] f w0 by simp
  obtain r s2 where r: "gewcVerify C opts e f s1 = (r, s2)"
    by (cases "gewcVerify C opts e f s1")
  have w2: "\<not> waiting s2" using gewcVerify_waiting [of C opts e f s1] r w1 by simp
  show ?thesis
  proof (cases r)
    case (Inl err)
    then show ?thesis using f r w2 by (simp add: getEffectiveWindowCache_def)
  next
    case (Inr v)
    obtain c s3 where c: "gewcFinish C e v s2 = (c, s3)" by (cases "gewcFinish C e v s2")
    have "\<not> waiting s3" using gewcFinish_waiting [of C e v s2] c w2 by simp
    then show ?thesis using f r Inr c by (simp add: getEffectiveWindowCache_def)
  qed
qed

text \<open>
  Claim C5, amended. The first turn of \<^verbatim>\<open>getEffectiveWindowCache\<close>, before the stored
  values are requested, cancels the scheduled rebuild and touches nothing else: after it
  no rebuild is pending and the store is as before, so the expiry of the timer that was
  pending at the call does nothing. A pass during which the event loop delivers nothing
  but timer expiries, any number at any of its awaits, ends with the result and the state
  of the pass run alone, and no rebuild is pending when it ends. Nothing is said of a
  rebuild that a listener schedules during the pass, or of a run of
  \<^verbatim>\<open>updateCachedTabbar\<close> that was already suspended when the pass began.
\<close>

theorem validation_cancels_rebuild:
  "\<not> waiting (gewcStart s) \<and>
   sessions (gewcStart s) = sessions s \<and>
   runEvent e (L\<lparr>moduleState := gewcStart (moduleState L)\<rparr>) TimerExpires =
     L\<lparr>moduleState := gewcStart (moduleState L)\<rparr> \<and>
   ((\<forall>ev\<in>set (evs1 @ evs2 @ evs3). ev = TimerExpires) \<longrightarrow>
      getEffectiveWindowCacheWithEvents C opts e (evs1, evs2, evs3) L =
        (fst (getEffectiveWindowCache C opts e (moduleState L)),
         L\<lparr>moduleState := snd (getEffectiveWindowCache C opts e (moduleState L))\<rparr>)) \<and>
   \<not> waiting (snd (getEffectiveWindowCache C opts e s))"
proof (intro conjI impI)
  show "\<not> waiting (gewcStart s)" by (rule gewcStart_waiting)
  show "sessions (gewcStart s) = sessions s"
    by (simp add: gewcStart_def cancelReservedUpdateCachedTabbar_def)
  show "runEvent e (L\<lparr>moduleState := gewcStart (moduleState L)\<rparr>) TimerExpires =
     L\<lparr>moduleState := gewcStart (moduleState L)\<rparr>"
    by (rule expiry_idle) (simp add: gewcStart_waiting)
  show "\<not> waiting (snd (getEffectiveWindowCache C opts e s))" by (rule gewc_waiting)
next
  assume "\<forall>ev\<in>set (evs1 @ evs2 @ evs3). ev = TimerExpires"
  then show "getEffectiveWindowCacheWithEvents C opts e (evs1, evs2, evs3) L =
        (fst (getEffectiveWindowCache C opts e (moduleState L)),
         L\<lparr>moduleState := snd (getEffectiveWindowCache C opts e (moduleState L))\<rparr>)"
    by (rule expiries_only)
qed

text \<open>
  In the example a rebuild is pending when the pass begins. Its expiry before the pass
  would start a run of \<^verbatim>\<open>updateCachedTabbar\<close>; during the pass, expiries at all three
  awaits change nothing.
\<close>

theorem validation_cancels_rebuild_witness:
  "waiting exampleState \<and>
   suspendedRebuilds (runEvent exampleEnv \<lparr>moduleState = exampleState, suspendedRebuilds = 0\<rparr>
      TimerExpires) = 1 \<and>
   \<not> waiting (gewcStart exampleState) \<and>
   getEffectiveWindowCacheWithEvents plainCache \<lparr>ignorePinnedTabs = False\<rparr> exampleEnv
       ([TimerExpires], [TimerExpires, TimerExpires], [TimerExpires])
       \<lparr>moduleState = exampleState, suspendedRebuilds = 0\<rparr> =
     (fst (getEffectiveWindowCache plainCache \<lparr>ignorePinnedTabs = False\<rparr> exampleEnv exampleState),
      \<lparr>moduleState =
         snd (getEffectiveWindowCache plainCache \<lparr>ignorePinnedTabs = False\<rparr> exampleEnv exampleState),
       suspendedRebuilds = 0\<rparr>)"
  using validation_cancels_rebuild [of exampleState exampleEnv
      "\<lparr>moduleState = exampleState, suspendedRebuilds = 0\<rparr>"
      "[TimerExpires]" "[TimerExpires, TimerExpires]" "[TimerExpires]"
      plainCache "\<lparr>ignorePinnedTabs = False\<rparr>"]
  by (simp add: exampleState_def exampleEnv_def)

subsection \<open>The owner handle\<close>



lemma gewcFetch_owner:
  "mLastWindowCacheOwner (snd (gewcFetch e s)) =
     (if queryTabs e = [] then None else Some (last (queryTabs e)))"
  by (simp add: gewcFetch_def Let_def)





















subsection \<open>The version gate and the test for a broken cache\<close>

lemma gewcFetch_reads:
  assumes "queryTabs e \<noteq> []"
  shows "fst (gewcFetch e (gewcStart s)) =
     (sessions s (tabId (last (queryTabs e)), kWINDOW_STATE_CACHED_SIDEBAR),
      sessions s (tabId (last (queryTabs e)), kWINDOW_STATE_CACHED_SIDEBAR_TABS_DIRTY),
      sessions s (tabId (last (queryTabs e)), kWINDOW_STATE_CACHED_SIDEBAR_COLLAPSED_DIRTY))"
  using assms
  by (simp add: gewcFetch_def Let_def getWindowCache_def gewcStart_def
      cancelReservedUpdateCachedTabbar_def)

lemma gewcVerify_version:
  assumes "asSnapshot v = Some c" and "version c \<noteq> kSIDEBAR_CONTENTS_VERSION e"
    and "mLastWindowCacheOwner s = Some ow"
  shows "\<exists>sg. fst (gewcVerify C opts e (v, td, cd) s) = Inr (None, sg)"
  using assms by (simp add: gewcVerify_def Let_def split: option.splits)

lemma gewcFinish_none: "fst (gewcFinish C e (None, sg) s) = None"
  by (simp add: gewcFinish_def Let_def)

text \<open>
  Claim C3. When the snapshot stored for the last tab of the window has a version other
  than \<^verbatim>\<open>kSIDEBAR_CONTENTS_VERSION\<close>, \<^verbatim>\<open>getEffectiveWindowCache\<close> returns \<^verbatim>\<open>null\<close>,
  whatever the options, the signatures and the answer of \<^verbatim>\<open>Cache.matcheSignatures\<close> are.
\<close>

theorem version_gate:
  assumes q: "queryTabs e \<noteq> []"
    and st: "sessions s (tabId (last (queryTabs e)), kWINDOW_STATE_CACHED_SIDEBAR) =
               Some (Snapshot c)"
    and ver: "version c \<noteq> kSIDEBAR_CONTENTS_VERSION e"
  shows "fst (getEffectiveWindowCache C opts e s) = Inr None"
proof -
  obtain f s1 where f: "gewcFetch e (gewcStart s) = (f, s1)"
    by (cases "gewcFetch e (gewcStart s)")
  obtain v td cd where fv: "f = (v, td, cd)" by (cases f) auto
  have ow: "mLastWindowCacheOwner s1 = Some (last (queryTabs e))"
    using gewcFetch_owner [of e "gewcStart s"] f q by simp
  have "v = Some (Snapshot c)" using gewcFetch_reads [OF q, of s] f fv st by simp
  then have snap: "asSnapshot v = Some c" by (simp add: asSnapshot_def)
  obtain r s2 where r: "gewcVerify C opts e (v, td, cd) s1 = (r, s2)"
    by (cases "gewcVerify C opts e (v, td, cd) s1")
  from gewcVerify_version [OF snap ver ow, of C opts td cd] r
  obtain sg where rr: "r = Inr (None, sg)" by auto
  obtain c3 s3 where fin: "gewcFinish C e (None, sg) s2 = (c3, s3)"
    by (cases "gewcFinish C e (None, sg) s2")
  then have "c3 = None" using gewcFinish_none [of C e sg s2] by simp
  then show ?thesis using f fv r rr fin by (simp add: getEffectiveWindowCache_def)
qed

text \<open>
  The example snapshot, relabelled as version 2 while the current version is 3: its
  signature equals the live one, and it is not returned.
\<close>

theorem version_gate_witness:
  "signature (exampleSnapshot\<lparr>version := 2\<rparr>) = Some (getWindowSignature exampleEnv) \<and>
   fst (getEffectiveWindowCache plainCache \<lparr>ignorePinnedTabs = False\<rparr> exampleEnv
     (exampleState\<lparr>sessions := (sessions exampleState)
        ((2, kWINDOW_STATE_CACHED_SIDEBAR) := Some (Snapshot (exampleSnapshot\<lparr>version := 2\<rparr>)))\<rparr>)) =
     Inr None"
  using version_gate [of exampleEnv
      "exampleState\<lparr>sessions := (sessions exampleState)
        ((2, kWINDOW_STATE_CACHED_SIDEBAR) := Some (Snapshot (exampleSnapshot\<lparr>version := 2\<rparr>)))\<rparr>"
      "exampleSnapshot\<lparr>version := 2\<rparr>" plainCache "\<lparr>ignorePinnedTabs = False\<rparr>"]
  by (simp add: exampleEnv_def exampleSnapshot_def plainTab_def)

text \<open>
  Claim C1 says that a snapshot whose recorded signature differs from the signature of its
  own contents is always discarded and the store cleared. The code makes the comparison
  only when the snapshot has a property \<^verbatim>\<open>tabs\<close>, which \<^verbatim>\<open>updateCachedTabbar\<close> never
  writes (the contents are under \<^verbatim>\<open>tabbar\<close>). A snapshot of the written shape with a
  wrong recorded signature, the current version and a recorded signature that matches the
  live one is returned as the effective cache, and the store keeps it.
\<close>

theorem unverified_signature_returned:
  assumes "queryTabs e \<noteq> []"
    and "sessions s (tabId (last (queryTabs e)), kWINDOW_STATE_CACHED_SIDEBAR) =
           Some (Snapshot c)"
    and "tabs c = None"
    and "signature c = Some sg"
    and "sg \<noteq> signatureFromTabsCache C (contents (tabbar c))"
    and "version c = kSIDEBAR_CONTENTS_VERSION e"
    and "matcheSignatures C (getWindowSignature e) (Some sg)"
    and "\<not> ignorePinnedTabs opts"
  shows "\<exists>c'. fst (getEffectiveWindowCache C opts e s) = Inr (Some c') \<and>
           contents (tabbar c') = contents (tabbar c) \<and> signature c' = Some sg \<and>
           sessions (snd (getEffectiveWindowCache C opts e s)) = sessions s"
  using assms
  by (simp add: getEffectiveWindowCache_def gewcStart_def cancelReservedUpdateCachedTabbar_def
      gewcFetch_def gewcVerify_def gewcFinish_def getWindowCache_def asSnapshot_def Let_def
      truthy_def split: option.splits prod.splits)

text \<open>
  The example snapshot with the recorded signature \<open>a\<close> for the contents \<open>a\<close>, \<open>b\<close>, in a
  window whose live signature is \<open>a\<close>.
\<close>

theorem unverified_signature_returned_witness:
  "signatureFromTabsCache plainCache (contents (tabbar exampleSnapshot)) \<noteq> ''a'' \<and>
   (\<exists>c'. fst (getEffectiveWindowCache plainCache \<lparr>ignorePinnedTabs = False\<rparr>
              (exampleEnv\<lparr>getWindowSignature := ''a''\<rparr>)
              (exampleState\<lparr>sessions := (sessions exampleState)
                 ((2, kWINDOW_STATE_CACHED_SIDEBAR) :=
                    Some (Snapshot (exampleSnapshot\<lparr>signature := Some ''a''\<rparr>)))\<rparr>)) =
            Inr (Some c') \<and>
          contents (tabbar c') = contents (tabbar exampleSnapshot) \<and>
          signature c' = Some ''a'' \<and>
          sessions (snd (getEffectiveWindowCache plainCache \<lparr>ignorePinnedTabs = False\<rparr>
              (exampleEnv\<lparr>getWindowSignature := ''a''\<rparr>)
              (exampleState\<lparr>sessions := (sessions exampleState)
                 ((2, kWINDOW_STATE_CACHED_SIDEBAR) :=
                    Some (Snapshot (exampleSnapshot\<lparr>signature := Some ''a''\<rparr>)))\<rparr>)))
            (2, kWINDOW_STATE_CACHED_SIDEBAR) =
            Some (Snapshot (exampleSnapshot\<lparr>signature := Some ''a''\<rparr>)))"
proof -
  let ?e = "exampleEnv\<lparr>getWindowSignature := ''a''\<rparr>"
  let ?c = "exampleSnapshot\<lparr>signature := Some ''a''\<rparr>"
  let ?s = "exampleState\<lparr>sessions := (sessions exampleState)
              ((2, kWINDOW_STATE_CACHED_SIDEBAR) := Some (Snapshot ?c))\<rparr>"
  let ?o = "\<lparr>ignorePinnedTabs = False\<rparr>"
  have p1: "queryTabs ?e \<noteq> []" by (simp add: exampleEnv_def)
  have p2: "sessions ?s (tabId (last (queryTabs ?e)), kWINDOW_STATE_CACHED_SIDEBAR) =
      Some (Snapshot ?c)"
    by (simp add: exampleEnv_def plainTab_def)
  have p3: "tabs ?c = None" by (simp add: exampleSnapshot_def)
  have p4: "signature ?c = Some ''a''" by simp
  have p5: "''a'' \<noteq> signatureFromTabsCache plainCache (contents (tabbar ?c))"
    by (simp add: plainCache_def exampleSnapshot_def computeSignature_def)
  have p6: "version ?c = kSIDEBAR_CONTENTS_VERSION ?e"
    by (simp add: exampleSnapshot_def exampleEnv_def)
  have p7: "matcheSignatures plainCache (getWindowSignature ?e) (Some ''a'')"
    by (simp add: plainCache_def matchSignatures_def)
  have p8: "\<not> ignorePinnedTabs ?o" by simp
  from unverified_signature_returned [OF p1 p2 p3 p4 p5 p6 p7 p8]
  obtain c' where c': "fst (getEffectiveWindowCache plainCache ?o ?e ?s) = Inr (Some c')"
    "contents (tabbar c') = contents (tabbar ?c)" "signature c' = Some ''a''"
    "sessions (snd (getEffectiveWindowCache plainCache ?o ?e ?s)) = sessions ?s"
    by blast
  have "sessions (snd (getEffectiveWindowCache plainCache ?o ?e ?s))
      (2, kWINDOW_STATE_CACHED_SIDEBAR) = Some (Snapshot ?c)"
    using c'(4) by simp
  moreover have "contents (tabbar c') = contents (tabbar exampleSnapshot)"
    using c'(2) by simp
  ultimately show ?thesis using c'(1,3) p5 by auto
qed

subsection \<open>The offset\<close>

lemma js_replace_prefix: "js_replace p (p @ r) = r"
proof (cases "p @ r")
  case Nil
  then show ?thesis by simp
next
  case (Cons c cs)
  then have "take (length p) (c # cs) = p" and "drop (length p) (c # cs) = r"
    by (metis append_eq_conv_conj)+
  then have "js_replace p (c # cs) = r" by simp
  then show ?thesis using Cons by simp
qed

lemma js_join_append:
  "T \<noteq> [] \<Longrightarrow> E \<noteq> [] \<Longrightarrow> js_join sep (T @ E) = js_join sep T @ sep @ js_join sep E"
proof (induction sep T rule: js_join.induct)
  case (1 sep) then show ?case by simp
next
  case (2 sep p)
  then show ?case by (cases E) simp_all
next
  case (3 sep p q ps)
  then show ?case by simp
qed

lemma js_join_Cons: "E \<noteq> [] \<Longrightarrow> js_join sep (r # E) = r @ sep @ js_join sep E"
  by (cases E) simp_all

lemma js_split_not_Nil: "js_split sep s \<noteq> []"
  by (induction s) (auto split: list.splits)

lemma js_split_append_sep: "js_split sep (x @ sep # y) = js_split sep x @ js_split sep y"
proof (induction x)
  case Nil
  then show ?case by simp
next
  case (Cons c cs)
  obtain p ps where ps: "js_split sep cs = p # ps"
    using js_split_not_Nil [of sep cs] by (cases "js_split sep cs") auto
  show ?case using Cons ps by simp
qed

lemma js_split_no_sep: "sep \<notin> set x \<Longrightarrow> js_split sep x = [x]"
  by (induction x) auto

lemma js_split_join:
  "E \<noteq> [] \<Longrightarrow> \<forall>r\<in>set E. sep \<notin> set r \<Longrightarrow> js_split sep (js_join [sep] E) = E"
proof (induction E)
  case Nil
  then show ?case by simp
next
  case (Cons r E)
  show ?case
  proof (cases "E = []")
    case True
    then show ?thesis using Cons.prems by (simp add: js_split_no_sep)
  next
    case False
    then have "js_join [sep] (r # E) = r @ sep # js_join [sep] E"
      by (simp add: js_join_Cons)
    then show ?thesis
      using Cons False by (simp add: js_split_append_sep js_split_no_sep)
  qed
qed

lemma signatureRecord_not_Nil: "signatureRecord r \<Longrightarrow> r \<noteq> []"
  by (auto simp: signatureRecord_def)

lemma count_join:
  assumes "E \<noteq> []" and "\<forall>r\<in>set E. signatureRecord r"
  shows "length (filter (\<lambda>part. part \<noteq> []) (js_split (CHR 0x0A) (js_join [CHR 0x0A] E))) = length E"
proof -
  have "js_split (CHR 0x0A) (js_join [CHR 0x0A] E) = E"
    using assms by (intro js_split_join) (auto simp: signatureRecord_def)
  moreover have "filter (\<lambda>part. part \<noteq> []) E = E"
    using assms(2) by (auto simp: filter_id_conv signatureRecord_not_Nil)
  ultimately show ?thesis by simp
qed

lemma signatureRecord_dropWhile: "signatureRecord r \<Longrightarrow> signatureRecord (dropWhile isWhiteSpace r)"
proof -
  assume g: "signatureRecord r"
  have a: "CHR 0x0A \<notin> set (dropWhile isWhiteSpace r)"
    using g set_dropWhileD [of "CHR 0x0A" isWhiteSpace r] by (auto simp: signatureRecord_def)
  have "\<not> list_all isWhiteSpace r" using g by (simp add: signatureRecord_def)
  then have "dropWhile isWhiteSpace r \<noteq> []" by (simp add: list_all_iff)
  then have "\<not> isWhiteSpace (hd (dropWhile isWhiteSpace r))" by (rule hd_dropWhile)
  moreover have "hd (dropWhile isWhiteSpace r) \<in> set (dropWhile isWhiteSpace r)"
    using \<open>dropWhile isWhiteSpace r \<noteq> []\<close> by simp
  ultimately have "\<not> list_all isWhiteSpace (dropWhile isWhiteSpace r)"
    by (auto simp: list_all_iff)
  with a show ?thesis by (simp add: signatureRecord_def)
qed

lemma signatureRecord_rev: "signatureRecord r \<Longrightarrow> signatureRecord (rev r)"
  by (simp add: signatureRecord_def list_all_iff)

lemma dropWhile_join:
  assumes "signatureRecord r"
  shows "dropWhile isWhiteSpace (js_join [CHR 0x0A] (r # E)) =
         js_join [CHR 0x0A] (dropWhile isWhiteSpace r # E)"
proof -
  from assms obtain x where x: "x \<in> set r" "\<not> isWhiteSpace x"
    by (auto simp: signatureRecord_def list_all_iff)
  show ?thesis
  proof (cases "E = []")
    case True then show ?thesis by simp
  next
    case False
    then show ?thesis using x by (simp add: js_join_Cons dropWhile_append1)
  qed
qed

lemma rev_join: "rev (js_join [c] E) = js_join [c] (rev (map rev E))"
proof (induction E)
  case Nil then show ?case by simp
next
  case (Cons r E)
  show ?case
  proof (cases "E = []")
    case True then show ?thesis by simp
  next
    case False
    then have "js_join [c] (rev (map rev E) @ [rev r]) = js_join [c] (rev (map rev E)) @ [c] @ js_join [c] [rev r]"
      by (intro js_join_append) auto
    then show ?thesis using Cons False by (simp add: js_join_Cons)
  qed
qed

lemma trim_join:
  assumes "E \<noteq> []" and "\<forall>r\<in>set E. signatureRecord r"
  shows "\<exists>E'. length E' = length E \<and> (\<forall>r\<in>set E'. signatureRecord r) \<and>
           js_trim (js_join [CHR 0x0A] E) = js_join [CHR 0x0A] E'"
proof -
  obtain r E0 where E: "E = r # E0" using assms(1) by (cases E) auto
  define E1 where "E1 = dropWhile isWhiteSpace r # E0"
  have g1: "\<forall>r\<in>set E1. signatureRecord r"
    using assms(2) E by (auto simp: E1_def signatureRecord_dropWhile)
  have s1: "dropWhile isWhiteSpace (js_join [CHR 0x0A] E) = js_join [CHR 0x0A] E1"
    using assms(2) E by (simp add: E1_def dropWhile_join)
  define E2 where "E2 = rev (map rev E1)"
  have g2: "\<forall>r\<in>set E2. signatureRecord r"
    using g1 by (auto simp: E2_def signatureRecord_rev)
  have n2: "E2 \<noteq> []" by (simp add: E2_def E1_def)
  then obtain r2 E20 where E2: "E2 = r2 # E20" by (cases E2) auto
  define E3 where "E3 = dropWhile isWhiteSpace r2 # E20"
  have g3: "\<forall>r\<in>set E3. signatureRecord r"
    using g2 E2 by (auto simp: E3_def signatureRecord_dropWhile)
  have s3: "dropWhile isWhiteSpace (js_join [CHR 0x0A] E2) = js_join [CHR 0x0A] E3"
    using g2 E2 by (simp add: E3_def dropWhile_join)
  define E4 where "E4 = rev (map rev E3)"
  have g4: "\<forall>r\<in>set E4. signatureRecord r"
    using g3 by (auto simp: E4_def signatureRecord_rev)
  have len: "length E4 = length E"
  proof -
    have "length E4 = length E3" by (simp add: E4_def)
    also have "\<dots> = length E2" by (simp add: E3_def E2)
    also have "\<dots> = length E1" by (simp add: E2_def)
    also have "\<dots> = length E" by (simp add: E1_def E)
    finally show ?thesis .
  qed
  have "js_trim (js_join [CHR 0x0A] E) = js_join [CHR 0x0A] E4"
    by (simp add: js_trim_def s1 rev_join [of _ E1] E2_def [symmetric] s3 rev_join [of _ E3] E4_def)
  with len g4 show ?thesis by blast
qed

lemma js_trim_line_feed: "js_trim (CHR 0x0A # x) = js_trim x"
  by (simp add: js_trim_def isWhiteSpace_def)

lemma offsetOf_extension:
  assumes "E \<noteq> []" and "\<forall>r\<in>set E. signatureRecord r"
  shows "offsetOf (computeSignature (T @ E)) (Some (computeSignature T)) = length E"
proof -
  have "js_trim (js_replace (computeSignature T) (computeSignature (T @ E))) =
        js_trim (js_join [CHR 0x0A] E)"
  proof (cases "T = []")
    case True
    then show ?thesis using js_replace_prefix [of "[]"] by (simp add: computeSignature_def)
  next
    case False
    then have "computeSignature (T @ E) = computeSignature T @ (CHR 0x0A # js_join [CHR 0x0A] E)"
      using assms(1) by (simp add: computeSignature_def js_join_append)
    then show ?thesis by (simp add: js_replace_prefix js_trim_line_feed)
  qed
  moreover obtain E' where "length E' = length E" "\<forall>r\<in>set E'. signatureRecord r"
    "js_trim (js_join [CHR 0x0A] E) = js_join [CHR 0x0A] E'"
    using trim_join [OF assms] by blast
  moreover from this have "E' \<noteq> []" using assms(1) by auto
  ultimately show ?thesis
    using count_join [of E'] by (simp add: offsetOf_def)
qed

lemma gewcVerify_signature:
  "gewcVerify C opts e f s = (Inr (Some c, sg), s') \<Longrightarrow> signature c = sg"
  by (cases f) (auto simp: gewcVerify_def Let_def split: option.splits if_splits)

lemma gewcFinish_offset:
  "gewcFinish C e (cache, sg) s = (Some c, s') \<Longrightarrow> signature c = signature (the cache) \<and>
     actualSignature c = Some (getWindowSignature e) \<and>
     offset c = Some (offsetOf (getWindowSignature e) sg)"
  by (auto simp: gewcFinish_def Let_def split: option.splits if_splits)

lemma gewc_offset:
  assumes "getEffectiveWindowCache C opts e s = (Inr (Some c), s')"
  shows "actualSignature c = Some (getWindowSignature e) \<and>
         offset c = Some (offsetOf (getWindowSignature e) (signature c))"
proof -
  obtain f s1 where f: "gewcFetch e (gewcStart s) = (f, s1)" by (cases "gewcFetch e (gewcStart s)")
  obtain r s2 where r: "gewcVerify C opts e f s1 = (r, s2)" by (cases "gewcVerify C opts e f s1")
  from assms f r obtain v where v: "r = Inr v"
    by (cases r) (auto simp: getEffectiveWindowCache_def)
  obtain cache sg where vv: "v = (cache, sg)" by (cases v)
  from assms f r v vv have fin: "gewcFinish C e (cache, sg) s2 = (Some c, s')"
    by (auto simp: getEffectiveWindowCache_def split: prod.splits)
  then obtain c3 where c3: "cache = Some c3"
    by (cases cache) (auto simp: gewcFinish_def Let_def)
  have "signature c3 = sg" using gewcVerify_signature [of C opts e f s1 c3 sg s2] r v vv c3 by simp
  then show ?thesis using gewcFinish_offset [OF fin] c3 by simp
qed

text \<open>
  Claim C2. When \<^verbatim>\<open>getEffectiveWindowCache\<close> returns a cache whose (cached) signature is
  the signature of the records \<open>T\<close> and whose live signature is that of \<open>T\<close> followed by
  a non-empty \<open>E\<close>, its \<^verbatim>\<open>offset\<close> is the number of records of \<open>E\<close>. The records of
  \<open>E\<close> are lines: free of line feeds and not blank.
\<close>

theorem offset_counts_extension:
  assumes "getEffectiveWindowCache C opts e s = (Inr (Some c), s')"
    and "signature c = Some (computeSignature T)"
    and "actualSignature c = Some (computeSignature (T @ E))"
    and "E \<noteq> []"
    and "\<forall>r\<in>set E. signatureRecord r"
  shows "offset c = Some (length E)"
  using gewc_offset [OF assms(1)] assms(2,3) offsetOf_extension [OF assms(4,5), of T] by simp

text \<open>
  The example snapshot (records \<open>a\<close>, \<open>b\<close>) in a window whose live signature has the
  records \<open>a\<close>, \<open>b\<close>, \<open>c\<close>, \<open>d\<close>: the offset is 2.
\<close>

theorem offset_counts_extension_witness:
  "\<exists>c. fst (getEffectiveWindowCache plainCache \<lparr>ignorePinnedTabs = False\<rparr>
            (exampleEnv\<lparr>getWindowSignature := computeSignature ([''a'', ''b''] @ [''c'', ''d''])\<rparr>)
            exampleState) = Inr (Some c) \<and>
        signature c = Some (computeSignature [''a'', ''b'']) \<and>
        actualSignature c = Some (computeSignature ([''a'', ''b''] @ [''c'', ''d''])) \<and>
        offset c = Some 2"
proof -
  let ?e = "exampleEnv\<lparr>getWindowSignature := computeSignature ([''a'', ''b''] @ [''c'', ''d''])\<rparr>"
  let ?o = "\<lparr>ignorePinnedTabs = False\<rparr>"
  obtain r s' where run: "getEffectiveWindowCache plainCache ?o ?e exampleState = (r, s')"
    by (cases "getEffectiveWindowCache plainCache ?o ?e exampleState")
  have "\<exists>c. fst (getEffectiveWindowCache plainCache ?o ?e exampleState) = Inr (Some c) \<and>
      signature c = Some (computeSignature [''a'', ''b'']) \<and>
      actualSignature c = Some (computeSignature ([''a'', ''b''] @ [''c'', ''d'']))"
    by (simp add: getEffectiveWindowCache_def gewcStart_def cancelReservedUpdateCachedTabbar_def
        gewcFetch_def gewcVerify_def gewcFinish_def getWindowCache_def asSnapshot_def Let_def
        truthy_def exampleEnv_def exampleState_def exampleSnapshot_def plainTab_def
        plainCache_def matchSignatures_def computeSignature_def)
  then obtain c where c: "r = Inr (Some c)"
    "signature c = Some (computeSignature [''a'', ''b''])"
    "actualSignature c = Some (computeSignature ([''a'', ''b''] @ [''c'', ''d'']))"
    using run by auto
  have ne: "[''c'', ''d''] \<noteq> ([] :: string list)" by simp
  have rec: "\<forall>r\<in>set [''c'', ''d'']. signatureRecord r"
    by (simp add: signatureRecord_def isWhiteSpace_def)
  have "offset c = Some (length [''c'', ''d''])"
    using offset_counts_extension [OF run [unfolded c(1)] c(2) c(3) ne rec] .
  then show ?thesis using run c by auto
qed

subsection \<open>A rebuild during a validation pass\<close>

lemma gewcFetch_example:
  "gewcFetch grownEnv (gewcStart exampleState) =
     ((Some (Snapshot exampleSnapshot), None, None),
      exampleState\<lparr>waiting := False, ownerAssignments := 1\<rparr>)"
  by (simp add: gewcFetch_def gewcStart_def cancelReservedUpdateCachedTabbar_def Let_def
      getWindowCache_def grownEnv_def exampleEnv_def exampleState_def plainTab_def)

lemma rebuild_example:
  "sessions (moduleState (runEvents grownEnv [ListenerReserves, TimerExpires, RebuildResumes]
       \<lparr>moduleState = exampleState\<lparr>waiting := False, ownerAssignments := 1\<rparr>,
        suspendedRebuilds = 0\<rparr>)) (2, kWINDOW_STATE_CACHED_SIDEBAR) =
     Some (Snapshot rebuiltSnapshot)"
  by (simp add: runEvents_def reserveToUpdateCachedTabbar_def updateCachedTabbarResume_def
      clearWindowCache_def updateWindowCache_def getWindowCacheOwner_def grownEnv_def
      exampleEnv_def exampleState_def exampleSnapshot_def rebuiltSnapshot_def plainTab_def)

lemma offset_example:
  "offsetOf (computeSignature [''a'', ''b'', ''c'']) (Some (computeSignature [''a'', ''b''])) = 1"
  using offsetOf_extension [of "[''c'']" "[''a'', ''b'']"]
  by (simp add: signatureRecord_def isWhiteSpace_def)

lemma pass_example:
  "getEffectiveWindowCacheWithEvents plainCache \<lparr>ignorePinnedTabs = False\<rparr> grownEnv
       ([], [ListenerReserves, TimerExpires, RebuildResumes], [])
       \<lparr>moduleState = exampleState, suspendedRebuilds = 0\<rparr> =
   (Inr (Some (exampleSnapshot\<lparr>offset := Some 1,
        actualSignature := Some (computeSignature [''a'', ''b'', ''c''])\<rparr>)),
    \<lparr>moduleState = exampleState\<lparr>waiting := False, ownerAssignments := 2,
        sessions := (sessions exampleState)
          ((2, kWINDOW_STATE_CACHED_SIDEBAR) := Some (Snapshot rebuiltSnapshot))\<rparr>,
     suspendedRebuilds = 0\<rparr>)"
proof -
  have v: "gewcVerify plainCache \<lparr>ignorePinnedTabs = False\<rparr> grownEnv
      (Some (Snapshot exampleSnapshot), None, None) s =
      (if mLastWindowCacheOwner s = None then (Inl TypeError, s)
       else (Inr (Some exampleSnapshot, Some (computeSignature [''a'', ''b''])), s))" for s
    by (simp add: gewcVerify_def Let_def asSnapshot_def asFlag_def truthy_def exampleSnapshot_def
        grownEnv_def exampleEnv_def split: option.splits)
  have ev: "runEvents grownEnv [ListenerReserves, TimerExpires, RebuildResumes]
       \<lparr>moduleState = exampleState\<lparr>waiting := False, ownerAssignments := 1\<rparr>,
        suspendedRebuilds = 0\<rparr> =
      \<lparr>moduleState = exampleState\<lparr>waiting := False, ownerAssignments := 2,
        sessions := (sessions exampleState)
          ((2, kWINDOW_STATE_CACHED_SIDEBAR) := Some (Snapshot rebuiltSnapshot))\<rparr>,
       suspendedRebuilds = 0\<rparr>"
    by (simp add: runEvents_def reserveToUpdateCachedTabbar_def updateCachedTabbarResume_def
      clearWindowCache_def updateWindowCache_def getWindowCacheOwner_def grownEnv_def
      exampleEnv_def exampleState_def exampleSnapshot_def rebuiltSnapshot_def plainTab_def fun_eq_iff)
  have m: "matcheSignatures plainCache (computeSignature [''a'', ''b'', ''c''])
      (Some (computeSignature [''a'', ''b'']))"
    by (simp add: plainCache_def matchSignatures_def computeSignature_def)
  show ?thesis
    unfolding getEffectiveWindowCacheWithEvents_def
    apply (simp only: prod.case Let_def runEvents_def [of _ "[]"] foldl.simps event_loop.simps
        gewcFetch_example ev v)
    apply (simp add: gewcFinish_def Let_def m offset_example exampleState_def grownEnv_def exampleEnv_def)
    done
qed

text \<open>
  Claim C5 as stated fails. In the example window, grown by a third record, the pass has
  read the stored snapshot when a listener reserves a rebuild; the new timer expires and
  the rebuild runs to its end, all at the second await of the pass and before its checks.
  The store then holds the rebuilt snapshot, written between the read and the comparison,
  and the pass still returns the snapshot it had read, with the offset 1.
\<close>

theorem rebuild_write_during_validation:
  "fst (gewcFetch grownEnv (gewcStart exampleState)) =
     (Some (Snapshot exampleSnapshot), None, None) \<and>
   sessions (moduleState (runEvents grownEnv [ListenerReserves, TimerExpires, RebuildResumes]
       \<lparr>moduleState = snd (gewcFetch grownEnv (gewcStart exampleState)),
        suspendedRebuilds = 0\<rparr>)) (2, kWINDOW_STATE_CACHED_SIDEBAR) =
     Some (Snapshot rebuiltSnapshot) \<and>
   rebuiltSnapshot \<noteq> exampleSnapshot \<and>
   getEffectiveWindowCacheWithEvents plainCache \<lparr>ignorePinnedTabs = False\<rparr> grownEnv
       ([], [ListenerReserves, TimerExpires, RebuildResumes], [])
       \<lparr>moduleState = exampleState, suspendedRebuilds = 0\<rparr> =
     (Inr (Some (exampleSnapshot\<lparr>offset := Some 1,
          actualSignature := Some (computeSignature [''a'', ''b'', ''c''])\<rparr>)),
      \<lparr>moduleState = exampleState\<lparr>waiting := False, ownerAssignments := 2,
          sessions := (sessions exampleState)
            ((2, kWINDOW_STATE_CACHED_SIDEBAR) := Some (Snapshot rebuiltSnapshot))\<rparr>,
       suspendedRebuilds = 0\<rparr>)"
proof (intro conjI)
  show "fst (gewcFetch grownEnv (gewcStart exampleState)) =
      (Some (Snapshot exampleSnapshot), None, None)"
    by (simp only: gewcFetch_example fst_conv)
  show "sessions (moduleState (runEvents grownEnv [ListenerReserves, TimerExpires, RebuildResumes]
       \<lparr>moduleState = snd (gewcFetch grownEnv (gewcStart exampleState)),
        suspendedRebuilds = 0\<rparr>)) (2, kWINDOW_STATE_CACHED_SIDEBAR) =
     Some (Snapshot rebuiltSnapshot)"
    by (simp only: gewcFetch_example snd_conv rebuild_example)
  show "rebuiltSnapshot \<noteq> exampleSnapshot"
    by (simp add: rebuiltSnapshot_def exampleSnapshot_def computeSignature_def)
  show "getEffectiveWindowCacheWithEvents plainCache \<lparr>ignorePinnedTabs = False\<rparr> grownEnv
       ([], [ListenerReserves, TimerExpires, RebuildResumes], [])
       \<lparr>moduleState = exampleState, suspendedRebuilds = 0\<rparr> =
     (Inr (Some (exampleSnapshot\<lparr>offset := Some 1,
          actualSignature := Some (computeSignature [''a'', ''b'', ''c''])\<rparr>)),
      \<lparr>moduleState = exampleState\<lparr>waiting := False, ownerAssignments := 2,
          sessions := (sessions exampleState)
            ((2, kWINDOW_STATE_CACHED_SIDEBAR) := Some (Snapshot rebuiltSnapshot))\<rparr>,
       suspendedRebuilds = 0\<rparr>)"
    by (rule pass_example)
qed

subsection \<open>The rollback of a restoration\<close>

lemma of_char_digitChar: "d < 10 \<Longrightarrow> (of_char (digitChar d) :: nat) = 48 + d"
  by (simp add: digitChar_def)

lemma parseNat_natToString: "parseNat (natToString n) = n"
proof (induction n rule: natToString.induct)
  case (1 n)
  show ?case
  proof (cases "n < 10")
    case True
    then show ?thesis by (subst natToString.simps) (simp add: parseNat_def of_char_digitChar)
  next
    case False
    then have "parseNat (natToString (n div 10)) = n div 10" using 1 by simp
    then show ?thesis using False
      by (subst natToString.simps) (simp add: parseNat_def of_char_digitChar)
  qed
qed

lemma natToString_inj: "natToString n = natToString m \<Longrightarrow> n = m"
  by (metis parseNat_natToString)

lemma digitChar_plain: "d < 10 \<Longrightarrow> digitChar d \<noteq> CHR '','' \<and> digitChar d \<noteq> CHR ''-''"
proof -
  assume "d < 10"
  then have "(of_char (digitChar d) :: nat) = 48 + d" by (rule of_char_digitChar)
  then show ?thesis by auto
qed

lemma natToString_chars: "CHR '','' \<notin> set (natToString n) \<and> CHR ''-'' \<notin> set (natToString n) \<and> natToString n \<noteq> []"
proof (induction n rule: natToString.induct)
  case (1 n)
  show ?case
  proof (cases "n < 10")
    case True
    then show ?thesis using digitChar_plain [of n] by (subst (1 2 3) natToString.simps) auto
  next
    case False
    then show ?thesis using 1 digitChar_plain [of "n mod 10"]
      by (subst (1 2 3) natToString.simps) auto
  qed
qed

lemma numberToString_inj: "numberToString i = numberToString j \<Longrightarrow> i = j"
proof -
  assume eq: "numberToString i = numberToString j"
  have hd: "\<And>n. hd (natToString n) \<noteq> CHR ''-''"
    using natToString_chars by (metis hd_in_set)
  show ?thesis
  proof (cases "i < 0")
    case True
    show ?thesis
    proof (cases "j < 0")
      case True
      with \<open>i < 0\<close> eq have "natToString (nat (- i)) = natToString (nat (- j))"
        by (simp add: numberToString_def)
      then have "nat (- i) = nat (- j)" by (rule natToString_inj)
      then show ?thesis using True \<open>i < 0\<close> by simp
    next
      case False
      with \<open>i < 0\<close> eq have "CHR ''-'' # natToString (nat (- i)) = natToString (nat j)"
        by (simp add: numberToString_def)
      then have "hd (natToString (nat j)) = CHR ''-''" by (metis list.sel(1))
      then show ?thesis using hd by simp
    qed
  next
    case False
    show ?thesis
    proof (cases "j < 0")
      case True
      with \<open>\<not> i < 0\<close> eq have "natToString (nat i) = CHR ''-'' # natToString (nat (- j))"
        by (simp add: numberToString_def)
      then have "hd (natToString (nat i)) = CHR ''-''" by (metis list.sel(1))
      then show ?thesis using hd by simp
    next
      case False
      with \<open>\<not> i < 0\<close> eq have "natToString (nat i) = natToString (nat j)"
        by (simp add: numberToString_def)
      then have "nat i = nat j" by (rule natToString_inj)
      then show ?thesis using False \<open>\<not> i < 0\<close> by simp
    qed
  qed
qed

lemma numberToString_chars: "CHR '','' \<notin> set (numberToString i) \<and> numberToString i \<noteq> []"
  using natToString_chars by (simp add: numberToString_def)

lemma js_join_not_Nil: "E \<noteq> [] \<Longrightarrow> \<forall>r\<in>set E. r \<noteq> [] \<Longrightarrow> js_join sep E \<noteq> []"
proof -
  assume ne: "E \<noteq> []" and all: "\<forall>r\<in>set E. r \<noteq> []"
  then obtain r E0 where E: "E = r # E0" by (cases E) auto
  show ?thesis
  proof (cases "E0 = []")
    case True then show ?thesis using E all by simp
  next
    case False then show ?thesis using E all by (simp add: js_join_Cons)
  qed
qed

lemma js_join_inj:
  assumes "\<forall>r\<in>set xs. sep \<notin> set r \<and> r \<noteq> []" and "\<forall>r\<in>set ys. sep \<notin> set r \<and> r \<noteq> []"
    and "js_join [sep] xs = js_join [sep] ys"
  shows "xs = ys"
proof (cases "xs = []")
  case True
  then show ?thesis using assms js_join_not_Nil [of ys "[sep]"] by auto
next
  case False
  have "ys \<noteq> []" using False assms js_join_not_Nil [of xs "[sep]"] by auto
  then have "js_split sep (js_join [sep] ys) = ys" using assms(2) by (intro js_split_join) auto
  moreover have "js_split sep (js_join [sep] xs) = xs" using False assms(1) by (intro js_split_join) auto
  ultimately show ?thesis using assms(3) by simp
qed

lemma parentsJoined_inj:
  "parentsJoined a = parentsJoined b \<Longrightarrow> map parent a = map parent b"
proof -
  assume eq: "parentsJoined a = parentsJoined b"
  have "map (\<lambda>item. numberToString (parent item)) a = map (\<lambda>item. numberToString (parent item)) b"
    using eq numberToString_chars
    by (intro js_join_inj [of _ "CHR '',''"]) (auto simp: parentsJoined_def)
  then have "map numberToString (map parent a) = map numberToString (map parent b)"
    by (simp add: comp_def)
  moreover have "inj numberToString" by (auto simp: inj_def dest: numberToString_inj)
  ultimately show ?thesis by (simp only: inj_map_eq_map)
qed

text \<open>
  Claim C4. When the internal restoration has put the cached tabs into the document, the
  authoritative structure has been pulled, and the parents computed from the live tabs
  differ from the authoritative ones (at some position, or in number), then
  \<^verbatim>\<open>restoreTabsFromCache\<close> returns \<^verbatim>\<open>false\<close> and no tabs container is attached afterwards.
\<close>

theorem restoration_rollback:
  assumes "restoreTabsFromCacheInternal R (internalArgs cache params)
             (prepareTabBar cache (restoreOffset params) d) = (True, d2)"
    and "pullTreeStructure R = Inr masterStructure"
    and "map parent (getTreeStructureFromTabs R (getAllTabs R d2)) \<noteq> map parent masterStructure"
  shows "fst (restoreTabsFromCache R cache params d) = Inr False \<and>
         attachedContainer (snd (restoreTabsFromCache R cache params d)) = None"
proof -
  have "parentsJoined (getTreeStructureFromTabs R (getAllTabs R d2)) \<noteq>
      parentsJoined masterStructure"
    using assms(3) parentsJoined_inj by blast
  then show ?thesis using assms(1,2)
    by (simp add: restoreTabsFromCache_def Let_def)
qed

text \<open>
  In the example the live tabs are two roots, while the authoritative structure makes the
  second tab a child of the first.
\<close>

theorem restoration_rollback_witness:
  "fst (restoreTabsFromCache exampleRestoreEnv (tabbar exampleSnapshot)
          \<lparr>paramsOffset = None, paramsTabs = []\<rparr> exampleDom) = Inr False \<and>
   attachedContainer (snd (restoreTabsFromCache exampleRestoreEnv (tabbar exampleSnapshot)
          \<lparr>paramsOffset = None, paramsTabs = []\<rparr> exampleDom)) = None"
proof -
  let ?p = "\<lparr>paramsOffset = None, paramsTabs = []\<rparr>"
  let ?d2 = "(prepareTabBar (tabbar exampleSnapshot) (restoreOffset ?p) exampleDom)
      \<lparr>attachedContainer := Some \<lparr>allTabsRestored = True\<rparr>\<rparr>"
  have p1: "restoreTabsFromCacheInternal exampleRestoreEnv
      (internalArgs (tabbar exampleSnapshot) ?p)
      (prepareTabBar (tabbar exampleSnapshot) (restoreOffset ?p) exampleDom) = (True, ?d2)"
    by (simp add: exampleRestoreEnv_def)
  have p2: "pullTreeStructure exampleRestoreEnv =
      Inr [\<lparr>parent = - 1, collapsed = False\<rparr>, \<lparr>parent = 0, collapsed = False\<rparr>]"
    by (simp add: exampleRestoreEnv_def)
  have p3: "map parent (getTreeStructureFromTabs exampleRestoreEnv (getAllTabs exampleRestoreEnv ?d2)) \<noteq>
      map parent [\<lparr>parent = - 1, collapsed = False\<rparr>, \<lparr>parent = 0, collapsed = False\<rparr>]"
    by (simp add: exampleRestoreEnv_def)
  show ?thesis using restoration_rollback [OF p1 p2 p3] .
qed

subsection \<open>The signature of the background page\<close>




















end
